theory Spec2Isabelle
  imports Main "HOL-Library.Sublist"
begin

section \<open>Python values, exceptions and results\<close>

text \<open>
  The repository is a Python program. A function that can raise returns a value of
  \<open>exn + 'a\<close> here: \<open>Inl e\<close> is an exception \<open>e\<close> that leaves the function,
  \<open>Inr v\<close> a normal return. Every exception carries the text that Python's \<open>str(e)\<close>
  gives (\<open>exn_msg\<close>); an \<open>ApiException\<close> of the Kubernetes client carries its
  \<open>body\<close> attribute as well, which is \<open>None\<close> when the client raised it without an
  HTTP response.
\<close>

datatype exn =
    ApiException (exn_msg: string) (exn_body: "string option")
  | AttributeError (exn_msg: string)
  | KeyError (exn_msg: string)
  | TypeError (exn_msg: string)
  | JSONDecodeError (exn_msg: string)
  | RequestException (exn_msg: string)
  | OtherException (exn_msg: string)

text \<open>What \<open>json.loads\<close> returns and what \<open>to_dict()\<close> produces: nested mappings,
  sequences and scalars. A mapping is an association list of its items, each key once,
  read with \<open>map_of\<close>.\<close>

datatype json =
    JNull
  | JBool bool
  | JNum int
  | JStr string
  | JArr "json list"
  | JObj "(string \<times> json) list"

text \<open>The dictionary \<open>{'status': ..., 'data': ...}\<close> that the dispatcher returns. Its
  \<open>data\<close> is a diagnostic string on error and the serialised object on success.\<close>

datatype payload = Text string | Data json

record query_result =
  status :: string
  data :: payload

section \<open>The resource query dispatcher (tools/kubconnect.py)\<close>

subsection \<open>The world the dispatcher runs in\<close>

text \<open>
  The two API client objects of \<open>get_api_map_from_csv\<close>: \<open>client.CoreV1Api()\<close> and
  \<open>client.AppsV1Api()\<close>.
\<close>

datatype surface = CoreV1Api | AppsV1Api

text \<open>
  A row as \<open>csv.DictReader\<close> yields it: the columns of the header, each with the
  field's text, or with \<open>None\<close> where the line is shorter than the header.
\<close>

type_synonym csv_row = "(string \<times> string option) list"

text \<open>A returned API object; only its \<open>to_dict()\<close> is used.\<close>

datatype api_object = ApiObject (to_dict: "exn + json")

text \<open>
  Everything outside the repository that one call of the dispatcher touches:
  \<^item> \<open>load_kube_config\<close>: \<open>config.load_kube_config(config_file="tmp/uploads/config")\<close>,
    \<open>Some e\<close> when it raises \<open>e\<close>;
  \<^item> \<open>open_resources_csv\<close>: opening \<open>tools/resources.csv\<close> and reading it with
    \<open>csv.DictReader\<close> (the file is not part of the sources, so its rows are a
    parameter); constructing the two client objects before it is taken not to raise;
  \<^item> \<open>has_method\<close>: whether \<open>getattr(api_client, method_name)\<close> finds an attribute;
  \<^item> \<open>call_method\<close>: the remote call \<open>func(namespace=..., name=...)\<close>, the name
    \<open>None\<close> when the keyword is not passed;
  \<^item> \<open>json_loads\<close>: \<open>json.loads\<close> on a string;
  \<^item> \<open>py_str\<close>: Python's \<open>str\<close> of a JSON value that is neither a string nor
    \<open>None\<close>.
\<close>

record env =
  load_kube_config :: "exn option"
  open_resources_csv :: "exn + csv_row list"
  has_method :: "surface \<Rightarrow> string \<Rightarrow> bool"
  call_method :: "surface \<Rightarrow> string \<Rightarrow> string \<Rightarrow> string option \<Rightarrow> exn + api_object"
  json_loads :: "string \<Rightarrow> exn + json"
  py_str :: "json \<Rightarrow> string"

text \<open>What a call does to the outside world, in order.\<close>

datatype event =
    LoadKubeConfig
  | ReadMappingSource
  | GetAttr surface string
  | Invoke surface string string "string option"

subsection \<open>Strings\<close>

text \<open>\<open>str.lower()\<close> on ASCII text; other bytes are left as they are.\<close>

definition lower_char :: "char \<Rightarrow> char" where
  "lower_char c =
     (case map_of (zip ''ABCDEFGHIJKLMNOPQRSTUVWXYZ'' ''abcdefghijklmnopqrstuvwxyz'') c of
        Some d \<Rightarrow> d
      | None \<Rightarrow> c)"

definition lower :: "string \<Rightarrow> string" where
  "lower s = map lower_char s"

text \<open>How an f-string renders a value that is a string or \<open>None\<close>.\<close>

definition fmt :: "string option \<Rightarrow> string" where
  "fmt v = (case v of None \<Rightarrow> ''None'' | Some s \<Rightarrow> s)"

text \<open>Truth value of \<open>name\<close> in \<open>if name\<close>: \<open>None\<close> and the empty string are false.\<close>

definition truthy :: "string option \<Rightarrow> bool" where
  "truthy v = (case v of None \<Rightarrow> False | Some s \<Rightarrow> s \<noteq> [])"

subsection \<open>get_api_map_from_csv\<close>

type_synonym api_map = "string option \<Rightarrow> (surface \<times> string option) option"

definition row_get :: "csv_row \<Rightarrow> string \<Rightarrow> exn + string option" where
  "row_get row k =
     (case map_of row k of
        None \<Rightarrow> Inl (KeyError ([CHR 0x27] @ k @ [CHR 0x27]))
      | Some v \<Rightarrow> Inr v)"

text \<open>
  The assignment \<open>api_map[row['resource']] = (api_client, row['method_suffix'])\<close>:
  Python evaluates the right-hand side first, then the subscript.
\<close>

definition store_row :: "csv_row \<Rightarrow> surface \<Rightarrow> api_map \<Rightarrow> exn + api_map" where
  "store_row row api_client m =
     (case row_get row ''method_suffix'' of
        Inl e \<Rightarrow> Inl e
      | Inr method_suffix \<Rightarrow>
          (case row_get row ''resource'' of
             Inl e \<Rightarrow> Inl e
           | Inr resource \<Rightarrow> Inr (m(resource \<mapsto> (api_client, method_suffix)))))"

fun read_rows :: "csv_row list \<Rightarrow> api_map \<Rightarrow> exn + api_map" where
  "read_rows [] m = Inr m"
| "read_rows (row # rows) m =
     (case row_get row ''api_version'' of
        Inl e \<Rightarrow> Inl e
      | Inr api_version \<Rightarrow>
          if api_version = Some ''v1'' then
            (case store_row row CoreV1Api m of Inl e \<Rightarrow> Inl e | Inr m' \<Rightarrow> read_rows rows m')
          else if api_version = Some ''apps_v1'' then
            (case store_row row AppsV1Api m of Inl e \<Rightarrow> Inl e | Inr m' \<Rightarrow> read_rows rows m')
          else read_rows rows m)"

definition get_api_map_from_csv :: "env \<Rightarrow> exn + api_map" where
  "get_api_map_from_csv w =
     (case open_resources_csv w of
        Inl e \<Rightarrow> Inl e
      | Inr rows \<Rightarrow> read_rows rows Map.empty)"

subsection \<open>execute_k8s_query\<close>

definition error_result :: "string \<Rightarrow> query_result" where
  "error_result s = \<lparr>status = ''error'', data = Text s\<rparr>"

definition success_result :: "json \<Rightarrow> query_result" where
  "success_result d = \<lparr>status = ''success'', data = Data d\<rparr>"

text \<open>
  The body of the \<open>try\<close> block. It returns the events so far, the value of the
  variable \<open>method_name\<close> when the block is left (the handlers read it) and either
  the exception that left the block or the dictionary returned from inside it.
  The parameters \<open>cluster_context\<close> and \<open>demo_mode\<close> of the source are never read by
  its body (\<open>if demo_mode: pass\<close>) and are left out.
\<close>

definition try_block ::
  "env \<Rightarrow> string \<Rightarrow> string \<Rightarrow> string option \<Rightarrow> event list \<times> string \<times> (exn + query_result)" where
  "try_block w resource_type namespace name =
     (case load_kube_config w of
        Some e \<Rightarrow> ([LoadKubeConfig], '''', Inl e)
      | None \<Rightarrow>
          (case get_api_map_from_csv w of
             Inl e \<Rightarrow> ([LoadKubeConfig, ReadMappingSource], '''', Inl e)
           | Inr resource_map \<Rightarrow>
               (case resource_map (Some (lower resource_type)) of
                  None \<Rightarrow>
                    ([LoadKubeConfig, ReadMappingSource], '''',
                     Inr (error_result (''Unsupported resource type: '' @ [CHR 0x27] @ resource_type
                            @ [CHR 0x27] @ ''.'')))
                | Some (api_client, method_suffix) \<Rightarrow>
                    (let action = (if truthy name then ''read'' else ''list'');
                         method_name = action @ ''_namespaced_'' @ fmt method_suffix;
                         kw_name = (if truthy name then name else None)
                     in if \<not> has_method w api_client method_name then
                          ([LoadKubeConfig, ReadMappingSource, GetAttr api_client method_name],
                           method_name,
                           Inl (AttributeError (''object has no attribute '' @ method_name)))
                        else
                          (let evs = [LoadKubeConfig, ReadMappingSource, GetAttr api_client method_name,
                                      Invoke api_client method_name namespace kw_name]
                           in case call_method w api_client method_name namespace kw_name of
                                Inl e \<Rightarrow> (evs, method_name, Inl e)
                              | Inr result_obj \<Rightarrow>
                                  (case to_dict result_obj of
                                     Inl e \<Rightarrow> (evs, method_name, Inl e)
                                   | Inr d \<Rightarrow> (evs, method_name, Inr (success_result d))))))))"

text \<open>\<open>json.loads(e.body)\<close>: a body that is \<open>None\<close> is a \<open>TypeError\<close>.\<close>

definition loads_body :: "env \<Rightarrow> string option \<Rightarrow> exn + json" where
  "loads_body w body =
     (case body of
        None \<Rightarrow> Inl (TypeError ''the JSON object must be str, bytes or bytearray, not NoneType'')
      | Some s \<Rightarrow> json_loads w s)"

text \<open>\<open>error_body.get('message')\<close>: only a mapping has \<open>get\<close>.\<close>

definition get_message :: "json \<Rightarrow> exn + json option" where
  "get_message j =
     (case j of
        JObj kvs \<Rightarrow> Inr (map_of kvs ''message'')
      | _ \<Rightarrow> Inl (AttributeError ''object has no attribute get''))"

definition fmt_json :: "env \<Rightarrow> json option \<Rightarrow> string" where
  "fmt_json w v =
     (case v of
        None \<Rightarrow> ''None''
      | Some JNull \<Rightarrow> ''None''
      | Some (JStr s) \<Rightarrow> s
      | Some j \<Rightarrow> py_str w j)"

text \<open>
  The three \<open>except\<close> clauses, tried in order on the exception that left the
  \<open>try\<close> block. An exception raised inside a handler is not caught by the clauses
  after it: it leaves the function.
\<close>

definition handlers :: "env \<Rightarrow> string \<Rightarrow> exn \<Rightarrow> exn + query_result" where
  "handlers w method_name e =
     (case e of
        ApiException _ body \<Rightarrow>
          (case loads_body w body of
             Inl e' \<Rightarrow> Inl e'
           | Inr error_body \<Rightarrow>
               (case get_message error_body of
                  Inl e' \<Rightarrow> Inl e'
                | Inr v \<Rightarrow> Inr (error_result (''Kubernetes API Error: '' @ fmt_json w v))))
      | AttributeError _ \<Rightarrow>
          Inr (error_result (''Internal Tool Error: Could not find method '' @ [CHR 0x27]
                 @ method_name @ [CHR 0x27] @ ''. Check the API map.''))
      | _ \<Rightarrow> Inr (error_result (''An unexpected error occurred: '' @ exn_msg e)))"

definition execute_k8s_query ::
  "env \<Rightarrow> string \<Rightarrow> string \<Rightarrow> string option \<Rightarrow> event list \<times> (exn + query_result)" where
  "execute_k8s_query w resource_type namespace name =
     (case try_block w resource_type namespace name of
        (evs, method_name, Inr r) \<Rightarrow> (evs, Inr r)
      | (evs, method_name, Inl e) \<Rightarrow> (evs, handlers w method_name e))"

subsection \<open>What a trace shows\<close>

text \<open>The attribute lookups \<open>getattr(api_client, method_name)\<close> of a trace.\<close>

fun lookups :: "event list \<Rightarrow> (surface \<times> string) list" where
  "lookups [] = []"
| "lookups (GetAttr api m # evs) = (api, m) # lookups evs"
| "lookups (_ # evs) = lookups evs"

text \<open>The remote calls of a trace, each with its namespace and (when passed) its name.\<close>

fun invocations :: "event list \<Rightarrow> (surface \<times> string \<times> string \<times> string option) list" where
  "invocations [] = []"
| "invocations (Invoke api m ns nm # evs) = (api, m, ns, nm) # invocations evs"
| "invocations (_ # evs) = invocations evs"

text \<open>Every operation name that a trace looks up or calls on an API surface.\<close>

fun operation_names :: "event list \<Rightarrow> string list" where
  "operation_names [] = []"
| "operation_names (GetAttr api m # evs) = m # operation_names evs"
| "operation_names (Invoke api m ns nm # evs) = m # operation_names evs"
| "operation_names (_ # evs) = operation_names evs"

text \<open>The verbs with which the client's mutating operations begin.\<close>

definition mutating_verbs :: "string list" where
  "mutating_verbs = [''create'', ''update'', ''delete'', ''patch'', ''replace'']"

definition read_only :: "string \<Rightarrow> bool" where
  "read_only m =
     ((prefix ''read_namespaced_'' m \<or> prefix ''list_namespaced_'' m)
      \<and> list_all (\<lambda>v. \<not> prefix v m) mutating_verbs)"

text \<open>
  A process makes its queries one after the other, each in the world as it is at that
  moment (the mapping file can change between two queries). There is no dispatcher
  object and no constructor in the source: a query is a call of \<open>execute_k8s_query\<close>.
\<close>

type_synonym query = "string \<times> string \<times> string option"

definition dispatch_all :: "(env \<times> query) list \<Rightarrow> (event list \<times> (exn + query_result)) list" where
  "dispatch_all steps =
     map (\<lambda>(w, resource_type, namespace, name). execute_k8s_query w resource_type namespace name) steps"

definition mapping_reads :: "(event list \<times> (exn + query_result)) list \<Rightarrow> nat" where
  "mapping_reads runs = count_list (concat (map fst runs)) ReadMappingSource"

section \<open>The conversation loop of llm_agent.py\<close>

subsection \<open>Messages\<close>

datatype tool_call = ToolCall (tc_id: string) (tc_name: string) (tc_arguments: string)

text \<open>
  The message of a model response (\<open>choices[0].message\<close>): its \<open>content\<close>, which is
  \<open>None\<close> when the model only requests tools, and its \<open>tool_calls\<close>, empty when the
  field is \<open>None\<close> or an empty list (\<open>response_message.get("tool_calls")\<close> is false for
  both).
\<close>

record response =
  content :: "string option"
  tool_calls :: "tool_call list"

text \<open>A tool message carries \<open>tool_call_id\<close>, \<open>name\<close> and \<open>content\<close>, in this order.\<close>

datatype message =
    SystemMessage string
  | UserMessage string
  | AssistantMessage response
  | ToolMessage string string string

subsection \<open>The world of one turn\<close>

text \<open>
  \<^item> \<open>cerebras_api_key\<close>, \<open>tool_api_key\<close>: the module constants read from the
    environment (\<open>os.getenv\<close>; the second is \<open>None\<close> when the variable is not set);
  \<^item> \<open>chat_completions_create\<close>: \<open>client.chat.completions.create(...)\<close> with the
    history it is given, followed by \<open>model_dump()['choices'][0]['message']\<close>;
  \<^item> \<open>arguments_loads\<close>: \<open>json.loads\<close> of a tool call's \<open>arguments\<close>;
  \<^item> \<open>post_tool_server\<close>: \<open>requests.post\<close> to the tool server,
    \<open>raise_for_status()\<close> and \<open>.json()\<close>;
  \<^item> \<open>json_dumps\<close>: \<open>json.dumps\<close>.
\<close>

record llm_env =
  cerebras_api_key :: string
  tool_api_key :: "string option"
  chat_completions_create :: "message list \<Rightarrow> exn + response"
  arguments_loads :: "string \<Rightarrow> exn + json"
  post_tool_server :: "json \<Rightarrow> exn + json"
  json_dumps :: "json \<Rightarrow> string"

text \<open>The lines that \<open>run_agent_query\<close> prints, without their decoration.\<close>

datatype console_line =
    PrintMissingKeys
  | PrintUser string
  | PrintModelError string
  | PrintWantsTool
  | PrintArgs json
  | PrintToolExecuted
  | PrintToolError string
  | PrintSendingResult
  | PrintAssistant "string option"
  | PrintSecondModelError string

text \<open>
  \<open>run_agent_query\<close> returns no value: what one turn did is its local list
  \<open>messages\<close> as it stands when the function is left, the histories with which the
  model was called, the argument payloads posted to the tool server, the lines printed,
  and the exception that left the function, if one did.
\<close>

record turn =
  messages :: "message list"
  model_calls :: "message list list"
  dispatches :: "json list"
  printed :: "console_line list"
  raised :: "exn option"

definition SYSTEM_PROMPT :: string where
  "SYSTEM_PROMPT =
     [CHR 0x0A]
     @ ''You are a helpful and highly intelligent DevOps assistant. Your role is to answer questions about a Kubernetes cluster.'' @ [CHR 0x0A]
     @ ''When a user asks a question, you must use the provided 'execute_kubernetes_query' tool to get the necessary information.'' @ [CHR 0x0A]
     @ ''Do not make up answers. If the tool provides an error or empty result, state that you couldn't find the information.'' @ [CHR 0x0A]
     @ ''After the tool is called and you get the result, formulate a clear, human-readable answer for the user.'' @ [CHR 0x0A]"

text \<open>\<open>except requests.exceptions.RequestException\<close> catches this class only.\<close>

definition is_request_exception :: "exn \<Rightarrow> bool" where
  "is_request_exception e = (case e of RequestException _ \<Rightarrow> True | _ \<Rightarrow> False)"

subsection \<open>run_agent_query\<close>

text \<open>The second call to the model, with the tool result in the history (lines 112-130).
  Its text is printed; nothing is appended to \<open>messages\<close>.\<close>

definition second_call :: "llm_env \<Rightarrow> turn \<Rightarrow> turn" where
  "second_call w t =
     (let t1 = t\<lparr>model_calls := model_calls t @ [messages t]\<rparr>
      in case chat_completions_create w (messages t) of
           Inr final_response \<Rightarrow> t1\<lparr>printed := printed t1 @ [PrintAssistant (content final_response)]\<rparr>
         | Inl e \<Rightarrow>
             if is_request_exception e
             then t1\<lparr>printed := printed t1 @ [PrintSecondModelError (exn_msg e)]\<rparr>
             else t1\<lparr>raised := Some e\<rparr>)"

text \<open>Executing the tool call and appending its result (lines 83-110).\<close>

definition call_tool :: "llm_env \<Rightarrow> tool_call \<Rightarrow> turn \<Rightarrow> turn" where
  "call_tool w tool_call t =
     (case arguments_loads w (tc_arguments tool_call) of
        Inl e \<Rightarrow> t\<lparr>printed := printed t @ [PrintWantsTool], raised := Some e\<rparr>
      | Inr tool_args \<Rightarrow>
          (let t1 = t\<lparr>printed := printed t @ [PrintWantsTool, PrintArgs tool_args],
                       dispatches := dispatches t @ [tool_args]\<rparr>
           in case post_tool_server w tool_args of
                Inr tool_result \<Rightarrow>
                  second_call w
                    (t1\<lparr>printed := printed t1 @ [PrintToolExecuted, PrintSendingResult],
                        messages := messages t1 @
                          [ToolMessage (tc_id tool_call) (tc_name tool_call) (json_dumps w tool_result)]\<rparr>)
              | Inl e \<Rightarrow>
                  if is_request_exception e
                  then second_call w
                    (t1\<lparr>printed := printed t1 @ [PrintToolError (exn_msg e), PrintSendingResult],
                        messages := messages t1 @
                          [ToolMessage (tc_id tool_call) (tc_name tool_call)
                             (json_dumps w (JObj [(''error'', JStr (exn_msg e))]))]\<rparr>)
                  else t1\<lparr>raised := Some e\<rparr>))"

definition run_agent_query :: "llm_env \<Rightarrow> string \<Rightarrow> turn" where
  "run_agent_query w user_prompt =
     (if cerebras_api_key w = [] \<or> \<not> truthy (tool_api_key w) then
        \<lparr>messages = [], model_calls = [], dispatches = [], printed = [PrintMissingKeys], raised = None\<rparr>
      else
        (let messages0 = [SystemMessage SYSTEM_PROMPT, UserMessage user_prompt];
             t0 = \<lparr>messages = messages0, model_calls = [messages0], dispatches = [],
                   printed = [PrintUser user_prompt], raised = None\<rparr>
         in case chat_completions_create w messages0 of
              Inl e \<Rightarrow>
                if is_request_exception e
                then t0\<lparr>printed := printed t0 @ [PrintModelError (exn_msg e)]\<rparr>
                else t0\<lparr>raised := Some e\<rparr>
            | Inr response_message \<Rightarrow>
                (let t1 = t0\<lparr>messages := messages0 @ [AssistantMessage response_message]\<rparr>
                 in case tool_calls response_message of
                      [] \<Rightarrow> t1\<lparr>printed := printed t1 @ [PrintAssistant (content response_message)]\<rparr>
                    | tool_call # _ \<Rightarrow>
                        if tc_name tool_call = ''execute_kubernetes_query''
                        then call_tool w tool_call t1
                        else t1)))"

subsection \<open>Tool messages and the calls they answer\<close>

text \<open>
  A history is matched when every tool message comes right after an assistant
  message one of whose tool calls has the tool message's identifier.
\<close>

fun matched_after :: "message option \<Rightarrow> message list \<Rightarrow> bool" where
  "matched_after prev [] = True"
| "matched_after prev (ToolMessage c n s # ms) =
     ((case prev of
         Some (AssistantMessage r) \<Rightarrow> c \<in> set (map tc_id (tool_calls r))
       | _ \<Rightarrow> False)
      \<and> matched_after (Some (ToolMessage c n s)) ms)"
| "matched_after prev (m # ms) = matched_after (Some m) ms"

definition tool_messages_matched :: "message list \<Rightarrow> bool" where
  "tool_messages_matched ms = matched_after None ms"

text \<open>The identifiers of the tool calls that a history answers with a tool message.\<close>

fun answered_ids :: "message list \<Rightarrow> string list" where
  "answered_ids [] = []"
| "answered_ids (ToolMessage c n s # ms) = c # answered_ids ms"
| "answered_ids (_ # ms) = answered_ids ms"

section \<open>The stateful agent of llm_agent_langchain.py\<close>

text \<open>
  What \<open>agent_executor.invoke\<close> returns: the dictionary's \<open>output\<close>, and, for the
  statements below, the histories with which the executor called the model and the
  tool calls it ran.
\<close>

record invoke_result =
  response_output :: string
  model_histories :: "message list list"
  tool_runs :: "tool_call list"

text \<open>
  A \<open>KubernetesSREAgent\<close>: its executor, as the function that
  \<open>self.agent_executor.invoke({"input": ..., "chat_history": ...})\<close> computes, and its
  \<open>chat_history\<close>. The executor is a library object; it is taken to read the history
  it is passed without changing it. The \<open>print\<close> calls of the class touch no field and
  are left out.
\<close>

record agent =
  agent_executor :: "string \<Rightarrow> message list \<Rightarrow> exn + invoke_result"
  chat_history :: "message list"

abbreviation (input) HumanMessage :: "string \<Rightarrow> message" where
  "HumanMessage s \<equiv> UserMessage s"

abbreviation (input) AIMessage :: "string \<Rightarrow> message" where
  "AIMessage s \<equiv> AssistantMessage \<lparr>content = Some s, tool_calls = []\<rparr>"

definition chat :: "agent \<Rightarrow> string \<Rightarrow> (exn + string) \<times> agent" where
  "chat self user_question =
     (case agent_executor self user_question (chat_history self) of
        Inl e \<Rightarrow> (Inl e, self)
      | Inr r \<Rightarrow>
          (Inr (response_output r),
           self\<lparr>chat_history := chat_history self @
                  [HumanMessage user_question, AIMessage (response_output r)]\<rparr>))"

definition start_new_session :: "agent \<Rightarrow> agent" where
  "start_new_session self = self\<lparr>chat_history := []\<rparr>"

subsection \<open>The executor's loop\<close>

text \<open>
  Modelled from the spec: the iteration loop of the \<open>AgentExecutor\<close> that
  \<open>KubernetesSREAgent.__init__\<close> builds is not in the sources (only its construction,
  with \<open>max_iterations=15\<close>, and its call in \<open>chat\<close> are). The loop follows the
  contract of the agent loop: with budget left, the model is called with the full
  history; a response without tool calls is the final answer; otherwise the response
  is appended, each requested call is run by the tool and its result appended as a tool
  message tagged with the call's identifier, and the next iteration starts. With the
  budget spent no further model call is made and the text of the last response is
  returned. A failure of the model call ends the turn with that failure.
  \<open>run_tool\<close> is the registered tool as the executor runs it, from the call to the
  text of the result (a malformed argument payload gives an error text).
\<close>

fun agent_loop ::
  "(message list \<Rightarrow> exn + response) \<Rightarrow> (tool_call \<Rightarrow> string) \<Rightarrow> nat \<Rightarrow> message list
     \<Rightarrow> invoke_result \<Rightarrow> exn + invoke_result" where
  "agent_loop model run_tool 0 history acc = Inr acc"
| "agent_loop model run_tool (Suc budget) history acc =
     (case model history of
        Inl e \<Rightarrow> Inl e
      | Inr r \<Rightarrow>
          (let acc' = acc\<lparr>response_output := (case content r of None \<Rightarrow> [] | Some s \<Rightarrow> s),
                          model_histories := model_histories acc @ [history]\<rparr>
           in if tool_calls r = [] then Inr acc'
              else agent_loop model run_tool budget
                     (history @ AssistantMessage r #
                        map (\<lambda>c. ToolMessage (tc_id c) (tc_name c) (run_tool c)) (tool_calls r))
                     (acc'\<lparr>tool_runs := tool_runs acc' @ tool_calls r\<rparr>)))"

text \<open>
  Modelled from the spec: \<open>AgentExecutor.invoke\<close>, which is not in the sources. The
  history of a turn is the system message, the session's history and the user's
  question; the loop runs on it with the configured budget.
\<close>

definition AgentExecutor_invoke ::
  "(message list \<Rightarrow> exn + response) \<Rightarrow> (tool_call \<Rightarrow> string) \<Rightarrow> string \<Rightarrow> nat
     \<Rightarrow> string \<Rightarrow> message list \<Rightarrow> exn + invoke_result" where
  "AgentExecutor_invoke model run_tool sys_prompt budget input history =
     agent_loop model run_tool budget
       (SystemMessage sys_prompt # history @ [UserMessage input])
       \<lparr>response_output = [], model_histories = [], tool_runs = []\<rparr>"

text \<open>The value of \<open>max_iterations\<close> in \<open>KubernetesSREAgent.__init__\<close> (line 217).\<close>

definition max_iterations :: nat where
  "max_iterations = 15"

text \<open>
  \<open>KubernetesSREAgent.__init__\<close>: the executor over the model, the tool and the system
  prompt (a long constant text of the source, taken as a parameter), and an empty
  history.
\<close>

definition KubernetesSREAgent ::
  "(message list \<Rightarrow> exn + response) \<Rightarrow> (tool_call \<Rightarrow> string) \<Rightarrow> string \<Rightarrow> agent" where
  "KubernetesSREAgent model run_tool sys_prompt =
     \<lparr>agent_executor = AgentExecutor_invoke model run_tool sys_prompt max_iterations,
      chat_history = []\<rparr>"

section \<open>Example worlds\<close>

text \<open>A mapping file with a core row, an apps row and a row of another API group.\<close>

definition example_rows :: "csv_row list" where
  "example_rows =
     [[(''resource'', Some ''pod''), (''api_version'', Some ''v1''), (''method_suffix'', Some ''pod'')],
      [(''resource'', Some ''deployment''), (''api_version'', Some ''apps_v1''),
       (''method_suffix'', Some ''deployment'')],
      [(''resource'', Some ''ingress''), (''api_version'', Some ''networking_v1''),
       (''method_suffix'', Some ''ingress'')]]"

text \<open>A cluster that answers every call; \<open>json.loads\<close> rejects every text.\<close>

definition example_env :: env where
  "example_env =
     \<lparr>load_kube_config = None,
      open_resources_csv = Inr example_rows,
      has_method = (\<lambda>api m. True),
      call_method = (\<lambda>api m ns nm. Inr (ApiObject (Inr (JObj [(''kind'', JStr m)])))),
      json_loads = (\<lambda>s. Inl (JSONDecodeError ''Expecting value: line 1 column 1 (char 0)'')),
      py_str = (\<lambda>j. ''?'')\<rparr>"

text \<open>
  The same cluster behind a failing TLS connection: the client's REST layer raises
  \<open>ApiException(status=0, reason=...)\<close> without an HTTP response, so the exception's
  \<open>body\<close> is \<open>None\<close>.
\<close>

definition tls_failure_env :: env where
  "tls_failure_env =
     example_env\<lparr>call_method :=
       (\<lambda>api m ns nm. Inl (ApiException ''(0) Reason: SSLError'' None))\<rparr>"

text \<open>Scripted models: the first response until a tool result is in the history, the
  second one after it.\<close>

definition has_tool_result :: "message list \<Rightarrow> bool" where
  "has_tool_result history = (answered_ids history \<noteq> [])"

definition scripted_model :: "response \<Rightarrow> response \<Rightarrow> message list \<Rightarrow> exn + response" where
  "scripted_model first second history = (if has_tool_result history then Inr second else Inr first)"

definition pod_arguments :: string where
  "pod_arguments = ''{\"resource_type\": \"pod\"}''"

definition one_tool_call :: response where
  "one_tool_call =
     \<lparr>content = None, tool_calls = [ToolCall ''call_1'' ''execute_kubernetes_query'' pod_arguments]\<rparr>"

definition two_tool_calls :: response where
  "two_tool_calls =
     \<lparr>content = None,
      tool_calls = [ToolCall ''call_1'' ''execute_kubernetes_query'' pod_arguments,
                    ToolCall ''call_2'' ''execute_kubernetes_query'' pod_arguments]\<rparr>"

definition plain_text :: response where
  "plain_text = \<lparr>content = Some ''Three pods are running.'', tool_calls = []\<rparr>"

definition example_llm_env :: "response \<Rightarrow> response \<Rightarrow> llm_env" where
  "example_llm_env first second =
     \<lparr>cerebras_api_key = ''YOUR_API_KEY_HERE'',
      tool_api_key = Some ''secret'',
      chat_completions_create = scripted_model first second,
      arguments_loads =
        (\<lambda>s. if s = pod_arguments then Inr (JObj [(''resource_type'', JStr ''pod'')])
             else Inl (JSONDecodeError ''Expecting value: line 1 column 1 (char 0)'')),
      post_tool_server = (\<lambda>args. Inr (JObj [(''status'', JStr ''success'')])),
      json_dumps = (\<lambda>j. ''{\"status\": \"success\"}'')\<rparr>"

text \<open>Two agents with a session of one earlier turn: the executor of the first fails,
  the executor of the second answers.\<close>

definition failing_agent :: agent where
  "failing_agent =
     \<lparr>agent_executor = (\<lambda>input history. Inl (OtherException ''Connection error.'')),
      chat_history = [HumanMessage ''Check the pods'', AIMessage ''All pods are running.'']\<rparr>"

definition answering_agent :: agent where
  "answering_agent =
     \<lparr>agent_executor = (\<lambda>input history.
        Inr \<lparr>response_output = ''The service has no endpoints.'', model_histories = [], tool_runs = []\<rparr>),
      chat_history = [HumanMessage ''Check the pods'', AIMessage ''All pods are running.'']\<rparr>"

section \<open>Properties of the dispatcher\<close>

subsection \<open>The example world, evaluated\<close>

lemma example_map:
  "get_api_map_from_csv example_env =
     Inr [Some ''pod'' \<mapsto> (CoreV1Api, Some ''pod''),
          Some ''deployment'' \<mapsto> (AppsV1Api, Some ''deployment'')]"
  by (simp add: get_api_map_from_csv_def example_env_def example_rows_def row_get_def store_row_def)

lemma example_load: "load_kube_config example_env = None"
  by (simp add: example_env_def)

lemma lower_Pod: "lower ''Pod'' = ''pod''"
  by (simp add: lower_def lower_char_def)

lemma lower_pod: "lower ''pod'' = ''pod''"
  by (simp add: lower_def lower_char_def)

lemma lower_Widget: "lower ''Widget'' = ''widget''"
  by (simp add: lower_def lower_char_def)

lemma example_query_list:
  "execute_k8s_query example_env ''pod'' ns None =
     ([LoadKubeConfig, ReadMappingSource, GetAttr CoreV1Api ''list_namespaced_pod'',
       Invoke CoreV1Api ''list_namespaced_pod'' ns None],
      Inr \<lparr>status = ''success'', data = Data (JObj [(''kind'', JStr ''list_namespaced_pod'')])\<rparr>)"
  by (simp add: execute_k8s_query_def try_block_def example_map example_load lower_pod
      truthy_def fmt_def success_result_def)
     (simp add: example_env_def Let_def success_result_def)

subsection \<open>No exception escapes the dispatcher\<close>

text \<open>
  C1. The claim: for every input \<open>execute_k8s_query\<close> returns a result dictionary and
  lets no exception escape, also when the body of a remote API error cannot be parsed.
  The code does not keep this. Its \<open>except ApiException\<close> clause calls
  \<open>json.loads(e.body)\<close> unguarded, and an exception raised inside an \<open>except\<close>
  clause is not caught by the clauses that follow. At the input below the remote call
  raises an \<open>ApiException\<close> whose body is \<open>None\<close>: the dispatcher looks up and calls
  \<open>list_namespaced_pod\<close>, and a \<open>TypeError\<close> leaves it instead of a dictionary.
\<close>

theorem api_exception_without_body_escapes:
  "execute_k8s_query tls_failure_env ''pod'' ''default'' None =
     ([LoadKubeConfig, ReadMappingSource, GetAttr CoreV1Api ''list_namespaced_pod'',
       Invoke CoreV1Api ''list_namespaced_pod'' ''default'' None],
      Inl (TypeError ''the JSON object must be str, bytes or bytearray, not NoneType''))"
proof -
  have m: "get_api_map_from_csv tls_failure_env = get_api_map_from_csv example_env"
    by (simp add: get_api_map_from_csv_def tls_failure_env_def)
  have l: "load_kube_config tls_failure_env = None"
    by (simp add: tls_failure_env_def example_env_def)
  have t: "try_block tls_failure_env ''pod'' ''default'' None =
     ([LoadKubeConfig, ReadMappingSource, GetAttr CoreV1Api ''list_namespaced_pod'',
       Invoke CoreV1Api ''list_namespaced_pod'' ''default'' None],
      ''list_namespaced_pod'', Inl (ApiException ''(0) Reason: SSLError'' None))"
    by (simp add: try_block_def m l example_map lower_pod truthy_def fmt_def)
       (simp add: tls_failure_env_def example_env_def Let_def)
  show ?thesis
    by (simp add: execute_k8s_query_def t handlers_def loads_body_def)
qed

subsection \<open>List or read\<close>

text \<open>
  The claim C2 has a name that is present, the empty string included, select the read
  operation. In the code the test is \<open>if name\<close>: an empty name is false, so the
  dispatcher lists, and passes the namespace only.
\<close>

theorem empty_name_lists:
  "invocations (fst (execute_k8s_query example_env ''pod'' ''default'' (Some []))) =
     [(CoreV1Api, ''list_namespaced_pod'', ''default'', None)]
   \<and> invocations (fst (execute_k8s_query example_env ''pod'' ''default'' (Some []))) \<noteq>
     [(CoreV1Api, ''read_namespaced_pod'', ''default'', Some [])]"
  by (simp add: execute_k8s_query_def try_block_def example_map example_load lower_pod
      truthy_def fmt_def success_result_def)
     (simp add: example_env_def Let_def success_result_def)

text \<open>
  C2, amended. For a resource type that the mapping holds (after lower-casing), with
  its API surface and method suffix, the operation is decided by the name alone. When
  the name is absent or the empty string, the dispatcher looks up
  \<open>list_namespaced_<suffix>\<close> on that surface and, if the surface has it, calls it with
  the namespace only. When the name is a non-empty string, it looks up
  \<open>read_namespaced_<suffix>\<close> and, if the surface has it, calls it with the namespace
  and the name. Nothing else is looked up or called.
\<close>

theorem mode_by_name:
  assumes "load_kube_config w = None"
    and "get_api_map_from_csv w = Inr m"
    and "m (Some (lower resource_type)) = Some (api, method_suffix)"
  shows "(name = None \<or> name = Some [] \<longrightarrow>
            lookups (fst (execute_k8s_query w resource_type namespace name)) =
              [(api, ''list_namespaced_'' @ fmt method_suffix)]
            \<and> invocations (fst (execute_k8s_query w resource_type namespace name)) =
              (if has_method w api (''list_namespaced_'' @ fmt method_suffix)
               then [(api, ''list_namespaced_'' @ fmt method_suffix, namespace, None)] else []))
       \<and> (\<forall>n. name = Some n \<and> n \<noteq> [] \<longrightarrow>
            lookups (fst (execute_k8s_query w resource_type namespace name)) =
              [(api, ''read_namespaced_'' @ fmt method_suffix)]
            \<and> invocations (fst (execute_k8s_query w resource_type namespace name)) =
              (if has_method w api (''read_namespaced_'' @ fmt method_suffix)
               then [(api, ''read_namespaced_'' @ fmt method_suffix, namespace, Some n)] else []))"
  using assms
  by (auto simp: execute_k8s_query_def try_block_def truthy_def Let_def split: sum.splits)

theorem mode_by_name_witness:
  "lookups (fst (execute_k8s_query example_env ''Pod'' ''kube-system'' None)) =
     [(CoreV1Api, ''list_namespaced_pod'')]
   \<and> invocations (fst (execute_k8s_query example_env ''Pod'' ''kube-system'' None)) =
     [(CoreV1Api, ''list_namespaced_pod'', ''kube-system'', None)]
   \<and> lookups (fst (execute_k8s_query example_env ''Pod'' ''kube-system'' (Some ''web-1''))) =
     [(CoreV1Api, ''read_namespaced_pod'')]
   \<and> invocations (fst (execute_k8s_query example_env ''Pod'' ''kube-system'' (Some ''web-1''))) =
     [(CoreV1Api, ''read_namespaced_pod'', ''kube-system'', Some ''web-1'')]"
proof -
  have e: "[Some ''pod'' \<mapsto> (CoreV1Api, Some ''pod''),
            Some ''deployment'' \<mapsto> (AppsV1Api, Some ''deployment'')] (Some (lower ''Pod''))
           = Some (CoreV1Api, Some ''pod'')"
    by (simp add: lower_Pod)
  have h: "has_method example_env CoreV1Api m" for m
    by (simp add: example_env_def)
  show ?thesis
    using mode_by_name [OF example_load example_map e, of None "''kube-system''"]
      mode_by_name [OF example_load example_map e, of "Some ''web-1''" "''kube-system''"]
    by (simp add: fmt_def h)
qed

subsection \<open>Unsupported resource types\<close>

text \<open>
  C3. When the dispatcher has loaded the configuration and read the mapping, and the
  lower-cased resource type is not a key of the mapping, it returns the error
  dictionary whose text quotes the resource type as it was supplied (not lower-cased;
  the text ends with a full stop after the closing quote). The trace of the call is the
  configuration load and the mapping read and nothing more: no operation is looked up
  or called on an API surface, and nothing is tried a second time.
\<close>

theorem unsupported_resource_type:
  assumes "load_kube_config w = None"
    and "get_api_map_from_csv w = Inr m"
    and "m (Some (lower resource_type)) = None"
  shows "execute_k8s_query w resource_type namespace name =
           ([LoadKubeConfig, ReadMappingSource],
            Inr \<lparr>status = ''error'',
                 data = Text (''Unsupported resource type: '' @ [CHR 0x27] @ resource_type
                          @ [CHR 0x27] @ ''.'')\<rparr>)"
  using assms by (simp add: execute_k8s_query_def try_block_def error_result_def)

theorem unsupported_resource_type_witness:
  "execute_k8s_query example_env ''Widget'' ''default'' (Some ''w-1'') =
           ([LoadKubeConfig, ReadMappingSource],
            Inr \<lparr>status = ''error'',
                 data = Text (''Unsupported resource type: '' @ [CHR 0x27] @ ''Widget''
                          @ [CHR 0x27] @ ''.'')\<rparr>)"
  by (rule unsupported_resource_type [OF example_load example_map]) (simp add: lower_Widget)

subsection \<open>Read-only operation names\<close>

text \<open>
  C4. Whatever the world and the arguments, every operation name that
  \<open>execute_k8s_query\<close> looks up or calls on an API surface begins with
  \<open>read_namespaced_\<close> or \<open>list_namespaced_\<close>, and with none of the mutating verbs
  (create, update, delete, patch, replace).
\<close>

theorem dispatcher_read_only:
  "list_all read_only (operation_names (fst (execute_k8s_query w resource_type namespace name)))"
  by (auto simp: execute_k8s_query_def try_block_def read_only_def mutating_verbs_def Let_def
      split: option.splits sum.splits prod.splits)

theorem dispatcher_read_only_witness:
  "operation_names (fst (execute_k8s_query example_env ''pod'' ''default'' None)) =
     [''list_namespaced_pod'', ''list_namespaced_pod'']
   \<and> list_all read_only [''list_namespaced_pod'', ''list_namespaced_pod'']"
  using dispatcher_read_only [of example_env "''pod''" "''default''" None]
  by (simp add: example_query_list)

subsection \<open>When the mapping is read\<close>

text \<open>
  The claim C7 has the mapping read once, when the dispatcher is constructed, and never
  again. The source has no dispatcher object: \<open>execute_k8s_query\<close> calls
  \<open>get_api_map_from_csv()\<close> in its own body. Two queries read the mapping source
  twice, and when the file changes between them they see different mappings: here the
  first query lists pods and the second finds \<open>pod\<close> unsupported.
\<close>

theorem mapping_read_twice:
  "mapping_reads (dispatch_all [(example_env, ''pod'', ''default'', None),
                                (example_env\<lparr>open_resources_csv := Inr []\<rparr>, ''pod'', ''default'', None)]) = 2
   \<and> map snd (dispatch_all [(example_env, ''pod'', ''default'', None),
                            (example_env\<lparr>open_resources_csv := Inr []\<rparr>, ''pod'', ''default'', None)]) =
       [Inr \<lparr>status = ''success'', data = Data (JObj [(''kind'', JStr ''list_namespaced_pod'')])\<rparr>,
        Inr \<lparr>status = ''error'',
             data = Text (''Unsupported resource type: '' @ [CHR 0x27] @ ''pod'' @ [CHR 0x27] @ ''.'')\<rparr>]"
proof -
  let ?w2 = "example_env\<lparr>open_resources_csv := Inr []\<rparr>"
  have l: "load_kube_config ?w2 = None" by (simp add: example_env_def)
  have m: "get_api_map_from_csv ?w2 = Inr Map.empty" by (simp add: get_api_map_from_csv_def)
  have q2: "execute_k8s_query ?w2 ''pod'' ''default'' None =
           ([LoadKubeConfig, ReadMappingSource],
            Inr \<lparr>status = ''error'',
                 data = Text (''Unsupported resource type: '' @ [CHR 0x27] @ ''pod'' @ [CHR 0x27] @ ''.'')\<rparr>)"
    by (simp add: execute_k8s_query_def try_block_def error_result_def l m)
  show ?thesis
    by (simp add: mapping_reads_def dispatch_all_def example_query_list q2)
qed

lemma count_mapping_reads:
  "count_list (fst (execute_k8s_query w resource_type namespace name)) ReadMappingSource =
     (if load_kube_config w = None then 1 else 0)"
  by (auto simp: execute_k8s_query_def try_block_def Let_def
      split: option.splits sum.splits prod.splits)

text \<open>
  C7, amended. The mapping is read from its source by every query, not once at
  construction: each call of \<open>execute_k8s_query\<close> whose configuration load succeeds
  reads the mapping source exactly once, and a call whose configuration load fails does
  not read it. So a process reads the source as many times as it makes queries with a
  successful load, and each query uses the mapping it has just read.
\<close>

theorem mapping_read_by_every_query:
  "mapping_reads (dispatch_all steps) =
     length (filter (\<lambda>(w, q). load_kube_config w = None) steps)"
proof (induction steps)
  case Nil
  show ?case by (simp add: mapping_reads_def dispatch_all_def)
next
  case (Cons s steps)
  obtain w resource_type namespace name where s: "s = (w, resource_type, namespace, name)"
    by (cases s) auto
  from Cons show ?case
    by (simp add: mapping_reads_def dispatch_all_def s count_mapping_reads)
qed

theorem mapping_read_by_every_query_witness:
  "mapping_reads (dispatch_all [(example_env, ''pod'', ''default'', None),
        (example_env\<lparr>load_kube_config := Some (OtherException ''Invalid kube-config file'')\<rparr>,
         ''pod'', ''default'', None),
        (example_env, ''deployment'', ''default'', Some ''web'')]) = 2"
  using mapping_read_by_every_query [of "[(example_env, ''pod'', ''default'', None),
        (example_env\<lparr>load_kube_config := Some (OtherException ''Invalid kube-config file'')\<rparr>,
         ''pod'', ''default'', None),
        (example_env, ''deployment'', ''default'', Some ''web'')]"]
  by (simp add: example_load)

section \<open>Properties of the conversation loop\<close>

subsection \<open>One turn with one tool call\<close>

lemma example_turn:
  "run_agent_query (example_llm_env one_tool_call plain_text) q =
     \<lparr>messages = [SystemMessage SYSTEM_PROMPT, UserMessage q, AssistantMessage one_tool_call,
                  ToolMessage ''call_1'' ''execute_kubernetes_query'' ''{\"status\": \"success\"}''],
      model_calls = [[SystemMessage SYSTEM_PROMPT, UserMessage q],
                     [SystemMessage SYSTEM_PROMPT, UserMessage q, AssistantMessage one_tool_call,
                      ToolMessage ''call_1'' ''execute_kubernetes_query'' ''{\"status\": \"success\"}'']],
      dispatches = [JObj [(''resource_type'', JStr ''pod'')]],
      printed = [PrintUser q, PrintWantsTool, PrintArgs (JObj [(''resource_type'', JStr ''pod'')]),
                 PrintToolExecuted, PrintSendingResult, PrintAssistant (Some ''Three pods are running.'')],
      raised = None\<rparr>"
  by (simp add: run_agent_query_def example_llm_env_def truthy_def scripted_model_def
      has_tool_result_def call_tool_def second_call_def Let_def one_tool_call_def plain_text_def)

text \<open>
  The claim C5 has the history hold five messages after the turn, the last of them the
  final answer, and the answer returned. \<open>run_agent_query\<close> prints the text of the
  second response and appends nothing after the tool message: with a model that asks
  for one tool call and then answers in plain text, the history ends with four messages.
\<close>

theorem round_trip_keeps_four_messages:
  "messages (run_agent_query (example_llm_env one_tool_call plain_text) ''List the pods'') =
     [SystemMessage SYSTEM_PROMPT, UserMessage ''List the pods'', AssistantMessage one_tool_call,
      ToolMessage ''call_1'' ''execute_kubernetes_query'' ''{\"status\": \"success\"}'']
   \<and> length (messages (run_agent_query (example_llm_env one_tool_call plain_text) ''List the pods'')) \<noteq> 5"
  by (simp add: example_turn)

text \<open>
  C5, amended. With both API keys set, let the model's first response request exactly
  one tool call, naming \<open>execute_kubernetes_query\<close> with arguments that parse, let the
  tool server answer, and let the model respond to the history that ends with the tool
  result. Then one turn of \<open>run_agent_query\<close> calls the model exactly twice (on the
  two-message history and on the four-message one), posts exactly one argument payload
  to the tool server, prints the content of the second response last, raises nothing,
  and leaves its history with exactly four messages in order: system, user,
  assistant (tool call), tool (result). The final text is printed, not returned and not
  appended. In the stateful agent, a turn whose executor returns appends exactly the
  user message and the final assistant message to the session history, and \<open>chat\<close>
  returns the final text.
\<close>

theorem round_trip:
  assumes keys: "cerebras_api_key w \<noteq> []" "truthy (tool_api_key w)"
    and first: "chat_completions_create w [SystemMessage SYSTEM_PROMPT, UserMessage q] = Inr r1"
    and one: "tool_calls r1 = [c]"
    and named: "tc_name c = ''execute_kubernetes_query''"
    and args: "arguments_loads w (tc_arguments c) = Inr a"
    and posted: "post_tool_server w a = Inr res"
    and second: "chat_completions_create w
                   [SystemMessage SYSTEM_PROMPT, UserMessage q, AssistantMessage r1,
                    ToolMessage (tc_id c) (tc_name c) (json_dumps w res)] = Inr r2"
    and invoked: "agent_executor self question (chat_history self) = Inr out"
  shows "model_calls (run_agent_query w q) =
           [[SystemMessage SYSTEM_PROMPT, UserMessage q],
            [SystemMessage SYSTEM_PROMPT, UserMessage q, AssistantMessage r1,
             ToolMessage (tc_id c) (tc_name c) (json_dumps w res)]]
       \<and> dispatches (run_agent_query w q) = [a]
       \<and> last (printed (run_agent_query w q)) = PrintAssistant (content r2)
       \<and> raised (run_agent_query w q) = None
       \<and> messages (run_agent_query w q) =
           [SystemMessage SYSTEM_PROMPT, UserMessage q, AssistantMessage r1,
            ToolMessage (tc_id c) (tc_name c) (json_dumps w res)]
       \<and> chat self question =
           (Inr (response_output out),
            self\<lparr>chat_history :=
              chat_history self @ [HumanMessage question, AIMessage (response_output out)]\<rparr>)"
  using assms
  by (simp add: run_agent_query_def call_tool_def second_call_def chat_def Let_def)

theorem round_trip_witness:
  "model_calls (run_agent_query (example_llm_env one_tool_call plain_text) ''List the pods'') =
     [[SystemMessage SYSTEM_PROMPT, UserMessage ''List the pods''],
      [SystemMessage SYSTEM_PROMPT, UserMessage ''List the pods'', AssistantMessage one_tool_call,
       ToolMessage ''call_1'' ''execute_kubernetes_query'' ''{\"status\": \"success\"}'']]
   \<and> dispatches (run_agent_query (example_llm_env one_tool_call plain_text) ''List the pods'') =
     [JObj [(''resource_type'', JStr ''pod'')]]
   \<and> last (printed (run_agent_query (example_llm_env one_tool_call plain_text) ''List the pods'')) =
     PrintAssistant (Some ''Three pods are running.'')
   \<and> length (messages (run_agent_query (example_llm_env one_tool_call plain_text) ''List the pods'')) = 4
   \<and> chat answering_agent ''And the service?'' =
     (Inr ''The service has no endpoints.'',
      answering_agent\<lparr>chat_history :=
        [HumanMessage ''Check the pods'', AIMessage ''All pods are running.'',
         HumanMessage ''And the service?'', AIMessage ''The service has no endpoints.'']\<rparr>)"
proof -
  let ?w = "example_llm_env one_tool_call plain_text"
  let ?c = "ToolCall ''call_1'' ''execute_kubernetes_query'' pod_arguments"
  let ?res = "JObj [(''status'', JStr ''success'')]"
  let ?out = "\<lparr>response_output = ''The service has no endpoints.'', model_histories = [], tool_runs = []\<rparr>"
  have k1: "cerebras_api_key ?w \<noteq> []" and k2: "truthy (tool_api_key ?w)"
    by (simp_all add: example_llm_env_def truthy_def)
  have f: "chat_completions_create ?w [SystemMessage SYSTEM_PROMPT, UserMessage ''List the pods'']
             = Inr one_tool_call"
    by (simp add: example_llm_env_def scripted_model_def has_tool_result_def)
  have o: "tool_calls one_tool_call = [?c]"
    by (simp add: one_tool_call_def)
  have n: "tc_name ?c = ''execute_kubernetes_query''"
    by simp
  have a: "arguments_loads ?w (tc_arguments ?c) = Inr (JObj [(''resource_type'', JStr ''pod'')])"
    by (simp add: example_llm_env_def)
  have p: "post_tool_server ?w (JObj [(''resource_type'', JStr ''pod'')]) = Inr ?res"
    by (simp add: example_llm_env_def)
  have s: "chat_completions_create ?w
             [SystemMessage SYSTEM_PROMPT, UserMessage ''List the pods'', AssistantMessage one_tool_call,
              ToolMessage (tc_id ?c) (tc_name ?c) (json_dumps ?w ?res)] = Inr plain_text"
    by (simp add: example_llm_env_def scripted_model_def has_tool_result_def)
  have i: "agent_executor answering_agent ''And the service?'' (chat_history answering_agent) = Inr ?out"
    by (simp add: answering_agent_def)
  have d: "json_dumps ?w ?res = ''{\"status\": \"success\"}''"
    by (simp add: example_llm_env_def)
  have h: "chat_history answering_agent =
             [HumanMessage ''Check the pods'', AIMessage ''All pods are running.'']"
    by (simp add: answering_agent_def)
  have t: "content plain_text = Some ''Three pods are running.''"
    by (simp add: plain_text_def)
  show ?thesis
    using round_trip [OF k1 k2 f o n a p s i]
    by (simp add: d h t)
qed

subsection \<open>Tool messages answer tool calls\<close>

text \<open>
  The claim C8 has every requested call dispatched and answered by a tool message with
  its identifier. \<open>run_agent_query\<close> takes \<open>tool_calls[0]\<close> only: when the response
  requests two calls, one payload is posted and only the first call is answered.
\<close>

theorem second_tool_call_unanswered:
  "map tc_id (tool_calls two_tool_calls) = [''call_1'', ''call_2'']
   \<and> length (dispatches (run_agent_query (example_llm_env two_tool_calls plain_text) ''List the pods'')) = 1
   \<and> answered_ids (messages (run_agent_query (example_llm_env two_tool_calls plain_text) ''List the pods''))
       = [''call_1'']"
  by (simp add: run_agent_query_def example_llm_env_def truthy_def scripted_model_def
      has_tool_result_def call_tool_def second_call_def Let_def two_tool_calls_def plain_text_def)

lemma messages_second_call: "messages (second_call w t) = messages t"
  by (simp add: second_call_def Let_def split: sum.splits)

lemma dispatches_second_call: "dispatches (second_call w t) = dispatches t"
  by (simp add: second_call_def Let_def split: sum.splits)

text \<open>
  C8, amended. In every turn of \<open>run_agent_query\<close>, every tool message of the history
  comes right after an assistant message one of whose tool calls has the tool message's
  identifier, and at most one tool call is dispatched. When the assistant response
  contains one or more tool-call requests, the response is appended to the history and
  only the first requested call is considered: if it names \<open>execute_kubernetes_query\<close>,
  its arguments parse and the tool server answers, exactly that call is dispatched and
  its result is appended as a tool message tagged with that call's identifier. The
  other requested calls are neither dispatched nor answered.
\<close>

theorem first_tool_call_answered:
  "tool_messages_matched (messages (run_agent_query w q))
   \<and> length (dispatches (run_agent_query w q)) \<le> 1
   \<and> (cerebras_api_key w \<noteq> [] \<and> truthy (tool_api_key w)
        \<and> chat_completions_create w [SystemMessage SYSTEM_PROMPT, UserMessage q] = Inr r
        \<and> tool_calls r = c # cs
        \<and> tc_name c = ''execute_kubernetes_query''
        \<and> arguments_loads w (tc_arguments c) = Inr a
        \<and> post_tool_server w a = Inr res
      \<longrightarrow> dispatches (run_agent_query w q) = [a]
        \<and> messages (run_agent_query w q) =
             [SystemMessage SYSTEM_PROMPT, UserMessage q, AssistantMessage r,
              ToolMessage (tc_id c) (tc_name c) (json_dumps w res)])"
  by (auto simp: run_agent_query_def call_tool_def tool_messages_matched_def Let_def
      messages_second_call dispatches_second_call
      split: sum.splits list.splits)

theorem first_tool_call_answered_witness:
  "tool_messages_matched (messages (run_agent_query (example_llm_env two_tool_calls plain_text) ''List the pods''))
   \<and> dispatches (run_agent_query (example_llm_env two_tool_calls plain_text) ''List the pods'') =
       [JObj [(''resource_type'', JStr ''pod'')]]
   \<and> messages (run_agent_query (example_llm_env two_tool_calls plain_text) ''List the pods'') =
       [SystemMessage SYSTEM_PROMPT, UserMessage ''List the pods'', AssistantMessage two_tool_calls,
        ToolMessage ''call_1'' ''execute_kubernetes_query'' ''{\"status\": \"success\"}'']"
proof -
  let ?w = "example_llm_env two_tool_calls plain_text"
  let ?c = "ToolCall ''call_1'' ''execute_kubernetes_query'' pod_arguments"
  let ?c2 = "ToolCall ''call_2'' ''execute_kubernetes_query'' pod_arguments"
  let ?res = "JObj [(''status'', JStr ''success'')]"
  have k: "cerebras_api_key ?w \<noteq> [] \<and> truthy (tool_api_key ?w)"
    by (simp add: example_llm_env_def truthy_def)
  have f: "chat_completions_create ?w [SystemMessage SYSTEM_PROMPT, UserMessage ''List the pods'']
             = Inr two_tool_calls"
    by (simp add: example_llm_env_def scripted_model_def has_tool_result_def)
  have o: "tool_calls two_tool_calls = ?c # [?c2]"
    by (simp add: two_tool_calls_def)
  have a: "arguments_loads ?w (tc_arguments ?c) = Inr (JObj [(''resource_type'', JStr ''pod'')])"
    by (simp add: example_llm_env_def)
  have p: "post_tool_server ?w (JObj [(''resource_type'', JStr ''pod'')]) = Inr ?res"
    by (simp add: example_llm_env_def)
  have d: "json_dumps ?w ?res = ''{\"status\": \"success\"}''"
    by (simp add: example_llm_env_def)
  have n: "tc_name ?c = ''execute_kubernetes_query''"
    by simp
  from first_tool_call_answered [of ?w "''List the pods''" two_tool_calls ?c "[?c2]"
      "JObj [(''resource_type'', JStr ''pod'')]" ?res] k f o n a p
  have "tool_messages_matched (messages (run_agent_query ?w ''List the pods''))
        \<and> dispatches (run_agent_query ?w ''List the pods'') = [JObj [(''resource_type'', JStr ''pod'')]]
        \<and> messages (run_agent_query ?w ''List the pods'') =
            [SystemMessage SYSTEM_PROMPT, UserMessage ''List the pods'', AssistantMessage two_tool_calls,
             ToolMessage (tc_id ?c) (tc_name ?c) (json_dumps ?w ?res)]"
    by blast
  then show ?thesis
    unfolding d tool_call.sel by blast
qed

subsection \<open>The iteration budget\<close>

lemma agent_loop_budget:
  assumes "\<forall>h. \<exists>r. model h = Inr r \<and> tool_calls r \<noteq> []"
  shows "\<exists>res. agent_loop model run_tool n history acc = Inr res
           \<and> length (model_histories res) = length (model_histories acc) + n"
proof (induction n arbitrary: history acc)
  case 0
  show ?case by simp
next
  case (Suc n)
  from assms obtain r where r: "model history = Inr r" "tool_calls r \<noteq> []"
    by blast
  let ?acc = "acc\<lparr>response_output := (case content r of None \<Rightarrow> [] | Some s \<Rightarrow> s),
                   model_histories := model_histories acc @ [history],
                   tool_runs := tool_runs acc @ tool_calls r\<rparr>"
  let ?h = "history @ AssistantMessage r #
              map (\<lambda>c. ToolMessage (tc_id c) (tc_name c) (run_tool c)) (tool_calls r)"
  from Suc.IH [of ?h ?acc] obtain res where
    "agent_loop model run_tool n ?h ?acc = Inr res"
    "length (model_histories res) = length (model_histories ?acc) + n"
    by blast
  with r show ?case
    by (simp add: Let_def)
qed

lemma model_calls_second_call: "length (model_calls (second_call w t)) = Suc (length (model_calls t))"
  by (simp add: second_call_def Let_def split: sum.splits)

lemma run_agent_query_calls: "length (model_calls (run_agent_query w q)) \<le> 2"
  by (auto simp: run_agent_query_def call_tool_def Let_def model_calls_second_call
      split: sum.splits list.splits)

text \<open>
  C6. Let the model answer every history with a response that requests a tool call.
  The agent built by \<open>KubernetesSREAgent.__init__\<close> has an executor with
  \<open>max_iterations = 15\<close>, a fixed bound between 10 and 15: on any question and any
  session history its executor returns after exactly \<open>max_iterations\<close> model calls, and
  \<open>chat\<close> returns an answer. \<open>run_agent_query\<close> has no loop: for any model it is left
  after at most two model calls.
\<close>

theorem iteration_budget:
  assumes "\<forall>h. \<exists>r. model h = Inr r \<and> tool_calls r \<noteq> []"
  shows "(\<exists>res. agent_executor (KubernetesSREAgent model run_tool sys_prompt) q h = Inr res
            \<and> length (model_histories res) = max_iterations)
       \<and> (\<exists>answer self'. chat (KubernetesSREAgent model run_tool sys_prompt) q = (Inr answer, self'))
       \<and> 10 \<le> max_iterations \<and> max_iterations \<le> 15
       \<and> length (model_calls (run_agent_query w q')) \<le> 2"
proof -
  have a: "\<exists>res. agent_executor (KubernetesSREAgent model run_tool sys_prompt) q h = Inr res
            \<and> length (model_histories res) = max_iterations" for h
    using agent_loop_budget [OF assms, of run_tool max_iterations
        "SystemMessage sys_prompt # h @ [UserMessage q]"
        "\<lparr>response_output = [], model_histories = [], tool_runs = []\<rparr>"]
    by (simp add: KubernetesSREAgent_def AgentExecutor_invoke_def)
  have b: "\<exists>answer self'. chat (KubernetesSREAgent model run_tool sys_prompt) q = (Inr answer, self')"
    using a [of "chat_history (KubernetesSREAgent model run_tool sys_prompt)"]
    by (auto simp: chat_def)
  show ?thesis
    using a b run_agent_query_calls by (simp add: max_iterations_def)
qed

theorem iteration_budget_witness:
  "(\<exists>res. agent_executor (KubernetesSREAgent (\<lambda>h. Inr one_tool_call) (\<lambda>c. ''{}'') ''You are an SRE.'')
             ''Why is the app down?'' [] = Inr res
          \<and> length (model_histories res) = 15)
   \<and> length (model_calls (run_agent_query (example_llm_env one_tool_call one_tool_call) ''Why?'')) \<le> 2"
proof -
  have "\<forall>h. \<exists>r. (\<lambda>h. Inr one_tool_call :: exn + response) h = Inr r \<and> tool_calls r \<noteq> []"
    by (simp add: one_tool_call_def)
  from iteration_budget [OF this, where run_tool = "\<lambda>c. ''{}''" and sys_prompt = "''You are an SRE.''"
      and q = "''Why is the app down?''" and h = "[]"
      and w = "example_llm_env one_tool_call one_tool_call" and q' = "''Why?''"]
  show ?thesis by (simp add: max_iterations_def)
qed

section \<open>Properties of the session\<close>

text \<open>
  C9. \<open>start_new_session\<close> leaves the session's history empty, whatever it held;
  resetting twice is the same as resetting once; and resetting a session whose history
  is already empty changes nothing.
\<close>

theorem reset_idempotent:
  "chat_history (start_new_session self) = []
   \<and> start_new_session (start_new_session self) = start_new_session self
   \<and> start_new_session (self\<lparr>chat_history := []\<rparr>) = self\<lparr>chat_history := []\<rparr>"
  by (simp add: start_new_session_def)

text \<open>
  C10. When the executor's invocation inside \<open>chat\<close> raises, \<open>chat\<close> raises the same
  exception and the agent, its history included, is as it was: the question of the
  failed turn is not appended. When the invocation returns, the history is the old one
  followed by the user message and the assistant message, in this order.
\<close>

theorem failed_turn_keeps_history:
  "(agent_executor self q (chat_history self) = Inl e \<longrightarrow> chat self q = (Inl e, self))
   \<and> (agent_executor self q (chat_history self) = Inr out \<longrightarrow>
        chat_history (snd (chat self q)) =
          chat_history self @ [HumanMessage q, AIMessage (response_output out)])"
  by (simp add: chat_def)

theorem failed_turn_keeps_history_witness:
  "chat failing_agent ''And the service?'' = (Inl (OtherException ''Connection error.''), failing_agent)
   \<and> chat_history (snd (chat failing_agent ''And the service?'')) =
       [HumanMessage ''Check the pods'', AIMessage ''All pods are running.'']
   \<and> chat_history (snd (chat answering_agent ''And the service?'')) =
       [HumanMessage ''Check the pods'', AIMessage ''All pods are running.'',
        HumanMessage ''And the service?'', AIMessage ''The service has no endpoints.'']"
proof -
  have f: "agent_executor failing_agent ''And the service?'' (chat_history failing_agent)
             = Inl (OtherException ''Connection error.'')"
    by (simp add: failing_agent_def)
  have a: "agent_executor answering_agent ''And the service?'' (chat_history answering_agent)
             = Inr \<lparr>response_output = ''The service has no endpoints.'', model_histories = [], tool_runs = []\<rparr>"
    by (simp add: answering_agent_def)
  have h: "chat_history failing_agent = [HumanMessage ''Check the pods'', AIMessage ''All pods are running.'']"
    "chat_history answering_agent = [HumanMessage ''Check the pods'', AIMessage ''All pods are running.'']"
    by (simp_all add: failing_agent_def answering_agent_def)
  have 1: "chat failing_agent ''And the service?'' = (Inl (OtherException ''Connection error.''), failing_agent)"
    using failed_turn_keeps_history [of failing_agent "''And the service?''" "OtherException ''Connection error.''"] f
    by blast
  have 2: "chat_history (snd (chat answering_agent ''And the service?'')) =
             chat_history answering_agent @
               [HumanMessage ''And the service?'', AIMessage ''The service has no endpoints.'']"
    using failed_turn_keeps_history [of answering_agent "''And the service?''" _
        "\<lparr>response_output = ''The service has no endpoints.'', model_histories = [], tool_runs = []\<rparr>"] a
    by simp
  show ?thesis
    by (simp add: 1 2 h)
qed

end
